theory Spec2Isabelle
  imports Main "HOL-Library.Multiset"
begin

section \<open>Data model (hooks/useProjectStorage.ts)\<close>

text \<open>
  The \<open>Project\<close> interface. A field marked optional in the source (\<open>description?\<close>) is an
  \<open>option\<close>; \<open>None\<close> is JavaScript's \<open>undefined\<close>. Dates are kept as the strings the
  source stores; they are read through \<open>getTime\<close> of the environment below.
\<close>

record suite_result =
  suite_success :: bool
  logs :: "string option"

record test_results =
  success :: bool
  frontend :: "suite_result option"
  backend :: "suite_result option"
  e2e :: "suite_result option"

record analysis =
  technologies :: "string list option"
  estimated_complexity :: "string option"
  suggestions :: "string list option"

record project =
  project_id :: string
  project_name :: string
  status :: string
  created_at :: string
  description :: "string option"
  updated_at :: "string option"
  current_iteration :: "int option"
  test_results :: "test_results option"
  has_final :: "bool option"
  stopped_by_user :: "bool option"
  stopped_at :: "string option"
  imported :: "bool option"
  imported_files :: "string list option"
  analysis :: "analysis option"
  modification_id :: "string option"
  modification_mode :: "string option"

text \<open>
  \<open>Partial<Project>\<close>, the argument of \<open>updateProject\<close>: every key may be absent
  (\<open>None\<close>). A key that is present carries its value; for an optional field that value
  may itself be \<open>undefined\<close> (\<open>Some None\<close>, as in \<open>test_results: undefined\<close>).
\<close>

record project_update =
  upd_project_id :: "string option"
  upd_project_name :: "string option"
  upd_status :: "string option"
  upd_created_at :: "string option"
  upd_description :: "string option option"
  upd_updated_at :: "string option option"
  upd_current_iteration :: "int option option"
  upd_test_results :: "test_results option option"
  upd_has_final :: "bool option option"
  upd_stopped_by_user :: "bool option option"
  upd_stopped_at :: "string option option"
  upd_imported :: "bool option option"
  upd_imported_files :: "string list option option"
  upd_analysis :: "analysis option option"
  upd_modification_id :: "string option option"
  upd_modification_mode :: "string option option"

definition no_update :: project_update where
  "no_update = \<lparr> upd_project_id = None, upd_project_name = None, upd_status = None,
     upd_created_at = None, upd_description = None, upd_updated_at = None,
     upd_current_iteration = None, upd_test_results = None, upd_has_final = None,
     upd_stopped_by_user = None, upd_stopped_at = None, upd_imported = None,
     upd_imported_files = None, upd_analysis = None, upd_modification_id = None,
     upd_modification_mode = None \<rparr>"

text \<open>One key of an object spread \<open>{...p, ...updates}\<close>: a present key overrides.\<close>

fun spread_key :: "'a \<Rightarrow> 'a option \<Rightarrow> 'a" where
  "spread_key old None = old"
| "spread_key old (Some v) = v"

text \<open>\<open>{ ...p, ...updates, updated_at: now }\<close> of \<open>updateProject\<close>.\<close>

definition spread :: "project \<Rightarrow> project_update \<Rightarrow> string \<Rightarrow> project" where
  "spread p u now = \<lparr>
     project_id = spread_key (project_id p) (upd_project_id u),
     project_name = spread_key (project_name p) (upd_project_name u),
     status = spread_key (status p) (upd_status u),
     created_at = spread_key (created_at p) (upd_created_at u),
     description = spread_key (description p) (upd_description u),
     updated_at = Some now,
     current_iteration = spread_key (current_iteration p) (upd_current_iteration u),
     test_results = spread_key (test_results p) (upd_test_results u),
     has_final = spread_key (has_final p) (upd_has_final u),
     stopped_by_user = spread_key (stopped_by_user p) (upd_stopped_by_user u),
     stopped_at = spread_key (stopped_at p) (upd_stopped_at u),
     imported = spread_key (imported p) (upd_imported u),
     imported_files = spread_key (imported_files p) (upd_imported_files u),
     analysis = spread_key (analysis p) (upd_analysis u),
     modification_id = spread_key (modification_id p) (upd_modification_id u),
     modification_mode = spread_key (modification_mode p) (upd_modification_mode u) \<rparr>"

text \<open>
  A whole \<open>Project\<close> object passed where \<open>Partial<Project>\<close> is expected
  (\<open>updateProject(project.project_id, project)\<close> in \<open>addProject\<close>): the required keys are
  present, an optional key is present when it has a value.
\<close>

definition as_update :: "project \<Rightarrow> project_update" where
  "as_update p = \<lparr>
     upd_project_id = Some (project_id p),
     upd_project_name = Some (project_name p),
     upd_status = Some (status p),
     upd_created_at = Some (created_at p),
     upd_description = map_option Some (description p),
     upd_updated_at = map_option Some (updated_at p),
     upd_current_iteration = map_option Some (current_iteration p),
     upd_test_results = map_option Some (test_results p),
     upd_has_final = map_option Some (has_final p),
     upd_stopped_by_user = map_option Some (stopped_by_user p),
     upd_stopped_at = map_option Some (stopped_at p),
     upd_imported = map_option Some (imported p),
     upd_imported_files = map_option Some (imported_files p),
     upd_analysis = map_option Some (analysis p),
     upd_modification_id = map_option Some (modification_id p),
     upd_modification_mode = map_option Some (modification_mode p) \<rparr>"

section \<open>The storage hook (hooks/useRobustStorage.ts)\<close>

definition STORAGE_KEY :: string where
  "STORAGE_KEY = ''ai_code_generator_projects''"

definition MAX_PROJECTS :: nat where
  "MAX_PROJECTS = 200"

definition MAX_STORAGE_SIZE :: nat where
  "MAX_STORAGE_SIZE = 8 * 1024 * 1024"

definition ACTIVE_PROJECTS_KEY :: string where
  "ACTIVE_PROJECTS_KEY = ''ai_code_generator_active_projects''"

text \<open>
  \<open>localStorage\<close> maps a key to a string. Every value this code writes is the
  \<open>JSON.stringify\<close> of a project array or of an array of project ids, and is read back
  with \<open>JSON.parse\<close>; the model stores the parsed value. \<open>Unparsable\<close> stands for any
  other content: reading it as an array throws, and the reader's \<open>catch\<close> branch runs.
  No key is written with both kinds of array; a reader that meets the other kind is
  treated as if it met \<open>Unparsable\<close>.
\<close>

datatype stored = JProjects "project list" | JIds "string list" | Unparsable

datatype fault = QuotaExceededError | OtherError

text \<open>
  What the browser decides:
  \<^item> \<open>getTime s\<close> is \<open>new Date(s).getTime()\<close>; it is \<open>None\<close> when \<open>s\<close> is not a date and
    the result is \<open>NaN\<close>;
  \<^item> \<open>daysBefore n now\<close> is the time value of the date \<open>d\<close> of the instant \<open>now\<close> after
    \<open>d.setDate(d.getDate() - n)\<close>, a step of \<open>n\<close> days in the calendar of the local
    time zone;
  \<^item> \<open>jsonLength ps\<close> is \<open>JSON.stringify(ps).length\<close>;
  \<^item> \<open>setItemFault k v\<close> is the exception \<open>localStorage.setItem(k, v)\<close> throws, if any, and
    \<open>errorMessage\<close> its \<open>message\<close>.
\<close>

record env =
  getTime :: "string \<Rightarrow> int option"
  daysBefore :: "nat \<Rightarrow> string \<Rightarrow> int"
  jsonLength :: "project list \<Rightarrow> nat"
  setItemFault :: "string \<Rightarrow> stored \<Rightarrow> fault option"
  errorMessage :: "fault \<Rightarrow> string"

text \<open>
  The hook's state: the React state \<open>projects\<close> and \<open>isStorageAvailable\<close>, the list
  \<open>metrics.errors\<close>, which the page reads, and the browser's \<open>localStorage\<close>. The other
  entries of \<open>metrics\<close> (\<open>projectCount\<close>, \<open>storageSize\<close>, \<open>lastCleanup\<close>) are only
  displayed and are left out.
\<close>

record storage =
  projects :: "project list"
  isStorageAvailable :: bool
  errors :: "string list"
  localStorage :: "string \<rightharpoonup> stored"

definition setItem :: "env \<Rightarrow> string \<Rightarrow> stored \<Rightarrow> storage \<Rightarrow> fault + storage" where
  "setItem e k v s =
     (case setItemFault e k v of
        Some f \<Rightarrow> Inl f
      | None \<Rightarrow> Inr (s\<lparr>localStorage := (localStorage s)(k \<mapsto> v)\<rparr>))"

text \<open>
  The comparator \<open>(a, b) => new Date(b.created_at).getTime() - new Date(a.created_at).getTime()\<close>
  as \<open>Array.prototype.sort\<close> reads it: a result of \<open>NaN\<close> counts as \<open>0\<close>.
\<close>

definition compareFn :: "env \<Rightarrow> project \<Rightarrow> project \<Rightarrow> int" where
  "compareFn e a b =
     (case getTime e (created_at b) of
        None \<Rightarrow> 0
      | Some tb \<Rightarrow> (case getTime e (created_at a) of None \<Rightarrow> 0 | Some ta \<Rightarrow> tb - ta))"

text \<open>
  \<open>Array.prototype.sort\<close> with a comparator: the sort is stable, so when every date parses
  the result is the list in descending order of time, equal times in their given order.
  When a date does not parse the comparator is not consistent and the language leaves the
  order to the engine; the model then gives what a stable insertion sort gives.
\<close>

fun insert_sorted :: "('a \<Rightarrow> 'a \<Rightarrow> int) \<Rightarrow> 'a \<Rightarrow> 'a list \<Rightarrow> 'a list" where
  "insert_sorted c x [] = [x]"
| "insert_sorted c x (y # ys) = (if c x y \<le> 0 then x # y # ys else y # insert_sorted c x ys)"

definition array_sort :: "('a \<Rightarrow> 'a \<Rightarrow> int) \<Rightarrow> 'a list \<Rightarrow> 'a list" where
  "array_sort c xs = foldr (insert_sorted c) xs []"

definition sort_newest_first :: "env \<Rightarrow> project list \<Rightarrow> project list" where
  "sort_newest_first e ps = array_sort (compareFn e) ps"

text \<open>The \<open>catch\<close> branch of \<open>saveProjects\<close>.\<close>

definition saveProjects_catch :: "env \<Rightarrow> fault \<Rightarrow> project list \<Rightarrow> storage \<Rightarrow> bool \<times> storage" where
  "saveProjects_catch e f newProjects s =
     (let s1 = s\<lparr>errors := errors s @ [''Save error: '' @ errorMessage e f]\<rparr>
      in if f = QuotaExceededError then
           (let emergencyProjects = take 50 newProjects in
            case setItem e STORAGE_KEY (JProjects emergencyProjects) s1 of
              Inr s' \<Rightarrow>
                (True, s'\<lparr>projects := emergencyProjects,
                          errors := errors s' @
                            [''Emergency cleanup performed - storage quota exceeded'']\<rparr>)
            | Inl _ \<Rightarrow> (False, s1))
         else (False, s1))"

definition saveProjects :: "env \<Rightarrow> project list \<Rightarrow> storage \<Rightarrow> bool \<times> storage" where
  "saveProjects e newProjects s =
     (if \<not> isStorageAvailable s then
        (False, s\<lparr>errors := errors s @ [''Storage not available'']\<rparr>)
      else
        let sortedProjects = sort_newest_first e newProjects;
            limitedProjects = take MAX_PROJECTS sortedProjects
        in if jsonLength e limitedProjects > MAX_STORAGE_SIZE div 2 then
             (let recentProjects = take (MAX_PROJECTS div 2) limitedProjects in
              case setItem e STORAGE_KEY (JProjects recentProjects) s of
                Inr s' \<Rightarrow>
                  (True, s'\<lparr>projects := recentProjects,
                            errors := errors s' @
                              [''Auto-cleanup performed due to size limit'']\<rparr>)
              | Inl f \<Rightarrow> saveProjects_catch e f newProjects s)
           else
             (case setItem e STORAGE_KEY (JProjects limitedProjects) s of
                Inr s' \<Rightarrow> (True, s'\<lparr>projects := limitedProjects\<rparr>)
              | Inl f \<Rightarrow> saveProjects_catch e f newProjects s))"

text \<open>
  \<open>trackActiveProject\<close>: a missing or empty item reads as the empty list; a \<open>JSON.parse\<close>
  or \<open>setItem\<close> exception is caught and gives \<open>false\<close>.
\<close>

definition trackActiveProject :: "env \<Rightarrow> string \<Rightarrow> storage \<Rightarrow> bool \<times> storage" where
  "trackActiveProject e projectId s =
     (if \<not> isStorageAvailable s then (False, s)
      else case (case localStorage s ACTIVE_PROJECTS_KEY of
                   None \<Rightarrow> Some [] | Some (JIds ids) \<Rightarrow> Some ids | Some _ \<Rightarrow> None) of
        None \<Rightarrow> (False, s)
      | Some activeProjects \<Rightarrow>
          if projectId \<notin> set activeProjects then
            (case setItem e ACTIVE_PROJECTS_KEY (JIds (activeProjects @ [projectId])) s of
               Inr s' \<Rightarrow> (True, s')
             | Inl _ \<Rightarrow> (False, s))
          else (True, s))"

definition untrackActiveProject :: "env \<Rightarrow> string \<Rightarrow> storage \<Rightarrow> bool \<times> storage" where
  "untrackActiveProject e projectId s =
     (if \<not> isStorageAvailable s then (False, s)
      else case localStorage s ACTIVE_PROJECTS_KEY of
        None \<Rightarrow> (True, s)
      | Some (JIds activeProjects) \<Rightarrow>
          (case setItem e ACTIVE_PROJECTS_KEY
                  (JIds (filter (\<lambda>i. i \<noteq> projectId) activeProjects)) s of
             Inr s' \<Rightarrow> (True, s')
           | Inl _ \<Rightarrow> (False, s))
      | Some _ \<Rightarrow> (False, s))"

text \<open>\<open>getActiveProjects\<close> reads the item named \<open>'active_projects'\<close>.\<close>

definition getActiveProjects :: "storage \<Rightarrow> string list" where
  "getActiveProjects s =
     (if \<not> isStorageAvailable s then []
      else case localStorage s ''active_projects'' of
        Some (JIds ids) \<Rightarrow> ids
      | _ \<Rightarrow> [])"

definition getProject :: "storage \<Rightarrow> string \<Rightarrow> project option" where
  "getProject s projectId = find (\<lambda>p. project_id p = projectId) (projects s)"

text \<open>\<open>updateProject\<close> discards the result of \<open>saveProjects\<close>; \<open>now\<close> is \<open>new Date().toISOString()\<close>.\<close>

definition updateProject :: "env \<Rightarrow> string \<Rightarrow> string \<Rightarrow> project_update \<Rightarrow> storage \<Rightarrow> storage" where
  "updateProject e now projectId updates s =
     snd (saveProjects e
            (map (\<lambda>p. if project_id p = projectId then spread p updates now else p) (projects s)) s)"

definition removeProject :: "env \<Rightarrow> string \<Rightarrow> storage \<Rightarrow> storage" where
  "removeProject e projectId s =
     snd (saveProjects e (filter (\<lambda>p. project_id p \<noteq> projectId) (projects s)) s)"


definition cutoffDate :: "env \<Rightarrow> string \<Rightarrow> int" where
  "cutoffDate e now = daysBefore e 30 now"

definition recentProjects :: "env \<Rightarrow> string \<Rightarrow> project list \<Rightarrow> project list" where
  "recentProjects e now ps =
     take 100 (filter (\<lambda>p. case getTime e (created_at p) of
                              None \<Rightarrow> False
                            | Some t \<Rightarrow> t > cutoffDate e now) ps)"


text \<open>The merge step of \<open>importProjects\<close>, once the file has been read and parsed.\<close>

definition importProjects :: "env \<Rightarrow> project list \<Rightarrow> storage \<Rightarrow> bool \<times> storage" where
  "importProjects e imported_list s =
     (let existingIds = set (map project_id (projects s));
          newProjects = filter (\<lambda>p. project_id p \<notin> existingIds) imported_list
      in saveProjects e (projects s @ newProjects) s)"

text \<open>
  \<open>addProject\<close>. An empty string is falsy. When the project exists it returns the result
  of \<open>updateProject\<close>, which is \<open>undefined\<close>, hence falsy. After a successful save it
  re-reads the item, and writes the unsorted, unlimited list again when the new project is
  not in it; an exception there is caught and ignored. The messages go to
  \<open>metrics.errors\<close>.
\<close>

definition addProject :: "env \<Rightarrow> string \<Rightarrow> project \<Rightarrow> storage \<Rightarrow> bool \<times> storage" where
  "addProject e now p s =
     (if project_id p = [] \<or> project_name p = [] \<or> created_at p = [] then
        (False, s\<lparr>errors := errors s @
                     [''Add error: Invalid project data, missing required fields'']\<rparr>)
      else if getProject s (project_id p) \<noteq> None then
        (False, updateProject e now (project_id p) (as_update p) s)
      else
        let normalizedProject = p\<lparr>
              status := (if status p = [] then ''created'' else status p),
              updated_at := (case updated_at p of
                               None \<Rightarrow> Some now
                             | Some u \<Rightarrow> if u = [] then Some now else Some u)\<rparr>;
            updatedProjects = normalizedProject # projects s;
            (saveResult, s1) = saveProjects e updatedProjects s
        in if saveResult then
             (case localStorage s1 STORAGE_KEY of
                Some (JProjects parsed) \<Rightarrow>
                  (if find (\<lambda>q. project_id q = project_id p) parsed = None then
                     (let s1e = s1\<lparr>errors := errors s1 @
                                    [''Add error: Project was not saved correctly'']\<rparr>
                      in case setItem e STORAGE_KEY (JProjects updatedProjects) s1e of
                           Inr s2 \<Rightarrow> (saveResult, s2)
                         | Inl _ \<Rightarrow> (saveResult, s1e))
                   else (saveResult, s1))
              | _ \<Rightarrow> (saveResult, s1))
           else (saveResult, s1))"

section \<open>The page (pages/index.tsx) and the project view (components/ProjectDetails.tsx)\<close>

text \<open>
  The outcome of \<open>await api.f(...)\<close>: the promise is rejected with an error (its \<open>name\<close>
  and \<open>message\<close>) or resolved.
\<close>

datatype 'a awaited = Rejected string string | Resolved 'a

text \<open>
  The page's state: the storage hook, the \<open>polling\<close> and \<open>activeProjects\<close> sets and the
  last error handed to \<open>handleError\<close> (message and context). A handler or closure is
  modelled as one transition of the state it holds: \<open>projects\<close> is the list of the render
  that created it, which for a polling closure is the render that started the loop.
  Snackbar texts, the loading flag and the selection are not modelled.
\<close>

record page =
  hook :: storage
  polling :: "string set"
  activeProjects :: "string set"
  errorState :: "(string \<times> string) option"

text \<open>
  \<open>dismissError\<close>, and the effect of the page that watches \<open>isStorageAvailable\<close> and
  \<open>metrics.errors\<close>: it runs after a render in which \<open>metrics.errors\<close> has changed
  (\<open>before\<close> is the list as it was) and shows the latest storage error.
\<close>

definition dismissError :: "page \<Rightarrow> page" where
  "dismissError pg =
     pg\<lparr>errorState := None,
        hook := (if errors (hook pg) \<noteq> [] then (hook pg)\<lparr>errors := []\<rparr> else hook pg)\<rparr>"

definition storageEffect :: "string list \<Rightarrow> page \<Rightarrow> page" where
  "storageEffect before pg =
     (if errors (hook pg) = before then pg
      else if \<not> isStorageAvailable (hook pg) then
        pg\<lparr>errorState := Some (''LocalStorage non disponibile. I progetti non verranno salvati.'',
                                ''Storage'')\<rparr>
      else if errors (hook pg) \<noteq> [] then
        pg\<lparr>errorState := Some (last (errors (hook pg)), ''Storage'')\<rparr>
      else pg)"

definition updateProjectSafely :: "env \<Rightarrow> string \<Rightarrow> string \<Rightarrow> project_update \<Rightarrow> storage \<Rightarrow> storage" where
  "updateProjectSafely e now projectId newData s =
     (case getProject s projectId of
        Some existingProject \<Rightarrow>
          updateProject e now projectId
            (newData\<lparr>upd_project_name := Some (project_name existingProject)\<rparr>) s
      | None \<Rightarrow> updateProject e now projectId newData s)"

definition handleStopGeneration :: "env \<Rightarrow> string \<Rightarrow> string \<Rightarrow> unit awaited \<Rightarrow> page \<Rightarrow> page" where
  "handleStopGeneration e now projectId stopGeneration pg =
     (case stopGeneration of
        Resolved _ \<Rightarrow>
          storageEffect (errors (hook pg))
            (pg\<lparr>hook := updateProjectSafely e now projectId
                       (no_update\<lparr>upd_status := Some ''failed'',
                                  upd_stopped_by_user := Some (Some True),
                                  upd_stopped_at := Some (Some now)\<rparr>) (hook pg),
               polling := polling pg - {projectId},
               activeProjects := activeProjects pg - {projectId}\<rparr>)
      | Rejected name message \<Rightarrow>
          pg\<lparr>errorState :=
               Some (if message = [] then ''Errore durante l'interruzione'' else message,
                     ''Stop Generation'')\<rparr>)"

text \<open>\<open>isGenerating\<close> of the project view; the stop controls are rendered under it.\<close>

definition isGenerating :: "project \<Rightarrow> bool" where
  "isGenerating p =
     (status p \<in> set [''processing'', ''generating_code'', ''generating_tests'', ''running_tests''])"

text \<open>
  \<open>checkCanStop\<close> of the stop button: nothing is asked when the button is disabled; a
  failed request falls back to \<open>can_stop: true\<close>. Once the check has answered, the
  button is rendered when the view shows it and \<open>can_stop\<close> holds.
\<close>

definition checkCanStop :: "bool \<Rightarrow> bool awaited \<Rightarrow> bool \<Rightarrow> bool" where
  "checkCanStop disabled canStopGeneration canStop =
     (if disabled then canStop
      else case canStopGeneration of Resolved can_stop \<Rightarrow> can_stop | Rejected _ _ \<Rightarrow> True)"

definition stop_button_rendered :: "project \<Rightarrow> bool \<Rightarrow> bool" where
  "stop_button_rendered p canStop = (isGenerating p \<and> canStop)"

text \<open>\<open>s.includes(t)\<close> on strings.\<close>

fun str_includes :: "string \<Rightarrow> string \<Rightarrow> bool" where
  "str_includes [] t = (t = [])"
| "str_includes (c # s) t = (take (length t) (c # s) = t \<or> str_includes s t)"

definition default_name :: "string \<Rightarrow> string" where
  "default_name projectId = ''Progetto '' @ take 8 projectId"

text \<open>The status test that ends both polling closures.\<close>

definition terminal_status :: "project_update \<Rightarrow> bool" where
  "terminal_status st =
     (upd_status st = Some ''completed'' \<or> upd_status st = Some ''failed''
      \<or> upd_status st = Some ''error'')"

text \<open>
  The project object both closures build for a project that is not in the list. A
  missing \<open>status.status\<close> is the empty string here; \<open>addProject\<close> turns either into
  \<open>'created'\<close>.
\<close>

definition minimal_project :: "string \<Rightarrow> string \<Rightarrow> project_update \<Rightarrow> string \<Rightarrow> project" where
  "minimal_project projectId name st now = \<lparr>
     project_id = projectId, project_name = name,
     status = (case upd_status st of None \<Rightarrow> [] | Some x \<Rightarrow> x),
     created_at = now, description = None, updated_at = None,
     current_iteration = (case upd_current_iteration st of None \<Rightarrow> None | Some x \<Rightarrow> x),
     test_results = None, has_final = None, stopped_by_user = None, stopped_at = None,
     imported = None, imported_files = None, analysis = None, modification_id = None,
     modification_mode = None \<rparr>"

definition stop_polling :: "string \<Rightarrow> page \<Rightarrow> page" where
  "stop_polling projectId pg =
     pg\<lparr>polling := polling pg - {projectId}, activeProjects := activeProjects pg - {projectId}\<rparr>"

definition polling_error :: "string \<Rightarrow> string \<Rightarrow> page \<Rightarrow> page" where
  "polling_error name message pg =
     (if name = ''NetworkError'' \<or> str_includes message ''fetch'' then
        pg\<lparr>errorState := Some (''Problema di connessione durante il monitoraggio del progetto'',
                                ''Polling'')\<rparr>
      else pg)"

definition project_failed :: "string \<Rightarrow> page \<Rightarrow> page" where
  "project_failed name pg =
     pg\<lparr>errorState := Some (''Progetto \"'' @ name @ ''\" fallito'', ''Project Generation'')\<rparr>"

text \<open>
  One run of the closure \<open>poll\<close> of \<open>pollProjectStatus\<close>, given the outcome of
  \<open>api.getProjectStatus\<close>. The first component tells whether the run ended in
  \<open>setTimeout(poll, 5000)\<close>. The closure reads and rewrites the project list of the
  render that started the loop, in every run; that list is \<open>projects (hook pg)\<close> here.
\<close>

definition poll :: "env \<Rightarrow> string \<Rightarrow> string \<Rightarrow> project_update awaited \<Rightarrow> page \<Rightarrow> bool \<times> page" where
  "poll e now projectId getProjectStatus pg =
     (case getProjectStatus of
        Rejected name message \<Rightarrow>
          (False, polling_error name message (stop_polling projectId pg))
      | Resolved st \<Rightarrow>
          let h = (case getProject (hook pg) projectId of
                     Some existingProject \<Rightarrow>
                       updateProject e now projectId
                         (st\<lparr>upd_project_name := Some
                               (case upd_project_name st of
                                  None \<Rightarrow> project_name existingProject
                                | Some n \<Rightarrow>
                                    if n \<noteq> [] \<and> \<not> str_includes n (default_name projectId) then n
                                    else project_name existingProject)\<rparr>) (hook pg)
                   | None \<Rightarrow>
                       snd (addProject e now
                              (minimal_project projectId
                                 (case upd_project_name st of
                                    None \<Rightarrow> default_name projectId
                                  | Some n \<Rightarrow> if n = [] then default_name projectId else n)
                                 st now) (hook pg)));
              pg1 = pg\<lparr>hook := h\<rparr>
          in if terminal_status st then
               (let pg2 = stop_polling projectId pg1;
                    projectName = (case getProject (hook pg) projectId of
                                     None \<Rightarrow> default_name projectId
                                   | Some c \<Rightarrow> if project_name c = [] then default_name projectId
                                               else project_name c)
                in (False, storageEffect (errors (hook pg))
                             (if upd_status st = Some ''completed'' then pg2
                              else project_failed projectName pg2)))
             else (True, storageEffect (errors (hook pg)) pg1))"

text \<open>
  One run of the closure \<open>poll\<close> of \<open>pollProjectStatusWithNamePreservation\<close>;
  \<open>customName\<close> is \<open>customNames[projectId]\<close>, read from \<open>localStorage\<close> when the loop was
  started. A name that is \<open>undefined\<close> after the chain of \<open>||\<close> is the empty string here.
\<close>

definition nameToUse :: "string option \<Rightarrow> project option \<Rightarrow> project_update \<Rightarrow> string" where
  "nameToUse customName existingProject st =
     (case customName of
        Some n \<Rightarrow> if n \<noteq> [] then n
                  else (case existingProject of
                          Some x \<Rightarrow> if project_name x \<noteq> [] then project_name x
                                    else (case upd_project_name st of None \<Rightarrow> [] | Some m \<Rightarrow> m)
                        | None \<Rightarrow> (case upd_project_name st of None \<Rightarrow> [] | Some m \<Rightarrow> m))
      | None \<Rightarrow> (case existingProject of
                   Some x \<Rightarrow> if project_name x \<noteq> [] then project_name x
                             else (case upd_project_name st of None \<Rightarrow> [] | Some m \<Rightarrow> m)
                 | None \<Rightarrow> (case upd_project_name st of None \<Rightarrow> [] | Some m \<Rightarrow> m)))"

definition pollWithNamePreservation ::
  "env \<Rightarrow> string \<Rightarrow> string \<Rightarrow> string option \<Rightarrow> project_update awaited \<Rightarrow> page \<Rightarrow> bool \<times> page" where
  "pollWithNamePreservation e now projectId customName getProjectStatus pg =
     (case getProjectStatus of
        Rejected name message \<Rightarrow>
          (False, polling_error name message (stop_polling projectId pg))
      | Resolved st \<Rightarrow>
          let existingProject = getProject (hook pg) projectId;
              name = nameToUse customName existingProject st;
              h = (case existingProject of
                     Some _ \<Rightarrow>
                       updateProject e now projectId (st\<lparr>upd_project_name := Some name\<rparr>) (hook pg)
                   | None \<Rightarrow>
                       snd (addProject e now (minimal_project projectId name st now) (hook pg)));
              pg1 = pg\<lparr>hook := h\<rparr>
          in if terminal_status st then
               (let pg2 = stop_polling projectId pg1
                in (False, storageEffect (errors (hook pg))
                             (if upd_status st = Some ''completed'' then pg2
                              else project_failed name pg2)))
             else (True, storageEffect (errors (hook pg)) pg1))"

text \<open>
  \<open>pollProjectStatus\<close> up to its call of \<open>poll()\<close>: the first component tells whether
  a polling loop was started.
\<close>

definition pollProjectStatus :: "string \<Rightarrow> page \<Rightarrow> bool \<times> page" where
  "pollProjectStatus projectId pg =
     (if projectId \<in> polling pg then (False, pg)
      else (True, pg\<lparr>activeProjects := insert projectId (activeProjects pg),
                     polling := insert projectId (polling pg)\<rparr>))"

text \<open>
  \<open>handleRegenerateProject\<close> calls \<open>dismissError()\<close> before it awaits the server.
\<close>

definition handleRegenerateProject :: "env \<Rightarrow> string \<Rightarrow> string \<Rightarrow> unit awaited \<Rightarrow> page \<Rightarrow> bool \<times> page" where
  "handleRegenerateProject e now projectId generateProject pg =
     (let pg0 = storageEffect (errors (hook pg)) (dismissError pg)
      in case generateProject of
           Resolved _ \<Rightarrow>
             (let r = pollProjectStatus projectId
                        (pg0\<lparr>hook := updateProjectSafely e now projectId
                                    (no_update\<lparr>upd_status := Some ''processing'',
                                               upd_current_iteration := Some (Some 0),
                                               upd_test_results := Some None\<rparr>) (hook pg0)\<rparr>)
              in (fst r, storageEffect (errors (hook pg0)) (snd r)))
         | Rejected name message \<Rightarrow>
             (False, pg0\<lparr>errorState := Some (message, ''Project Regeneration'')\<rparr>))"

text \<open>
  The page together with its running polling loops: \<open>loops\<close> lists, by project id, every
  closure \<open>poll\<close> that is waiting for its request or its timer. Nothing in the source
  cancels such a closure; it ends only by returning without \<open>setTimeout\<close>. The events
  are the calls that start a loop or stop a generation.
\<close>

record app =
  the_page :: page
  loops :: "string list"

datatype event =
    Regenerate string "unit awaited"
  | StartPolling string
  | StopGeneration string "unit awaited"

definition started :: "string \<Rightarrow> bool \<times> page \<Rightarrow> app \<Rightarrow> app" where
  "started projectId r a =
     \<lparr> the_page = snd r, loops = (if fst r then loops a @ [projectId] else loops a) \<rparr>"

fun step :: "env \<Rightarrow> string \<Rightarrow> app \<Rightarrow> event \<Rightarrow> app" where
  "step e now a (StartPolling projectId) =
     started projectId (pollProjectStatus projectId (the_page a)) a"
| "step e now a (Regenerate projectId r) =
     started projectId (handleRegenerateProject e now projectId r (the_page a)) a"
| "step e now a (StopGeneration projectId r) =
     a\<lparr>the_page := handleStopGeneration e now projectId r (the_page a)\<rparr>"

definition run :: "env \<Rightarrow> string \<Rightarrow> app \<Rightarrow> event list \<Rightarrow> app" where
  "run e now a evs = foldl (step e now) a evs"

section \<open>The Merge Engine\<close>

text \<open>
  Modelled from the spec: the Merge Engine runs on the generation server, whose code is
  not among the sources. An Iteration holds the files it wrote; the history is the list
  of committed Iterations in index order.
\<close>

record iteration =
  iter_index :: nat
  codeFiles :: "string \<rightharpoonup> string"
  testFiles :: "string \<rightharpoonup> string"
  iter_success :: bool

text \<open>
  Modelled from the spec: the successful path is the history up to and including the
  first successful Iteration, or the whole history when no Iteration succeeded.
\<close>

fun successful_path :: "iteration list \<Rightarrow> iteration list" where
  "successful_path [] = []"
| "successful_path (i # rest) = (if iter_success i then [i] else i # successful_path rest)"

text \<open>
  Modelled from the spec: the merge scans the successful path from index 0 upward and,
  for each file path, keeps the content of the highest-indexed Iteration that wrote it
  (last writer wins). \<open>merge_onto\<close> writes over the files of an existing artifact;
  \<open>merge\<close> builds the artifact from nothing.
\<close>

definition merge_onto :: "(string \<rightharpoonup> string) \<Rightarrow> iteration list \<Rightarrow> (string \<rightharpoonup> string)" where
  "merge_onto artifact history =
     foldl (\<lambda>files i. files ++ codeFiles i) artifact (successful_path history)"

definition merge :: "iteration list \<Rightarrow> (string \<rightharpoonup> string)" where
  "merge history = merge_onto Map.empty history"

section \<open>Notions used to state the properties\<close>

text \<open>
  What \<open>saveProjects\<close> keeps of a list when no exception occurs: the newest
  \<open>MAX_PROJECTS\<close>, cut to half of that when their serialisation is longer than half of
  \<open>MAX_STORAGE_SIZE\<close>.
\<close>

definition limited :: "env \<Rightarrow> project list \<Rightarrow> project list" where
  "limited e ps =
     (let l = take MAX_PROJECTS (sort_newest_first e ps)
      in if jsonLength e l > MAX_STORAGE_SIZE div 2 then take (MAX_PROJECTS div 2) l else l)"

text \<open>
  The list is in the order the comparator of \<open>saveProjects\<close> asks for: the comparator
  puts no project after one that comes later in the list.
\<close>

definition newest_first :: "env \<Rightarrow> project list \<Rightarrow> bool" where
  "newest_first e ps = sorted_wrt (\<lambda>a b. compareFn e a b \<le> 0) ps"

text \<open>The project array stored under \<open>STORAGE_KEY\<close>, if there is one.\<close>

definition persisted :: "storage \<Rightarrow> project list option" where
  "persisted s =
     (case localStorage s STORAGE_KEY of Some (JProjects ps) \<Rightarrow> Some ps | _ \<Rightarrow> None)"

text \<open>The list \<open>updateProject\<close> hands to \<open>saveProjects\<close>.\<close>

definition updated_list :: "project list \<Rightarrow> string \<Rightarrow> project_update \<Rightarrow> string \<Rightarrow> project list" where
  "updated_list ps projectId updates now =
     map (\<lambda>p. if project_id p = projectId then spread p updates now else p) ps"

text \<open>
  Saving the list \<open>ps\<close> takes the normal path of \<open>saveProjects\<close>: the storage is
  available and \<open>setItem\<close> does not throw on what is kept of \<open>ps\<close>.
\<close>

definition normal_save :: "env \<Rightarrow> storage \<Rightarrow> project list \<Rightarrow> bool" where
  "normal_save e s ps =
     (isStorageAvailable s \<and> setItemFault e STORAGE_KEY (JProjects (limited e ps)) = None)"

text \<open>
  The list that a call of \<open>saveProjects\<close> on \<open>ps\<close> stores, on each of its paths: what is
  kept of \<open>ps\<close> on the normal path; the first fifty of \<open>ps\<close> when \<open>setItem\<close> throws
  \<open>QuotaExceededError\<close> and the emergency write goes through; nothing (\<open>None\<close>) when the
  storage is not available or the write fails.
\<close>

definition saved :: "env \<Rightarrow> storage \<Rightarrow> project list \<Rightarrow> project list option" where
  "saved e s ps =
     (if \<not> isStorageAvailable s then None
      else case setItemFault e STORAGE_KEY (JProjects (limited e ps)) of
        None \<Rightarrow> Some (limited e ps)
      | Some QuotaExceededError \<Rightarrow>
          (case setItemFault e STORAGE_KEY (JProjects (take 50 ps)) of
             None \<Rightarrow> Some (take 50 ps)
           | Some _ \<Rightarrow> None)
      | Some OtherError \<Rightarrow> None)"

section \<open>Example inputs\<close>

text \<open>
  A browser in the time zone UTC that reads three dates and takes every other string for
  an invalid date, whose serialisation spends 100000 characters on a project and whose
  storage holds five million characters.
\<close>

definition example_clock :: "string \<Rightarrow> int option" where
  "example_clock s =
     (if s = ''2024-03-02T00:00:00.000Z'' then Some 1709337600000
      else if s = ''2024-03-01T00:00:00.000Z'' then Some 1709251200000
      else if s = ''2024-01-01T00:00:00.000Z'' then Some 1704067200000
      else None)"

definition example_env :: env where
  "example_env = \<lparr>
     getTime = example_clock,
     daysBefore = (\<lambda>n now. (case example_clock now of None \<Rightarrow> 0 | Some t \<Rightarrow> t)
                            - int n * 86400000),
     jsonLength = (\<lambda>ps. 100000 * length ps),
     setItemFault = (\<lambda>k v. case v of
                        JProjects ps \<Rightarrow>
                          if 100000 * length ps > 5000000 then Some QuotaExceededError else None
                      | _ \<Rightarrow> None),
     errorMessage = (\<lambda>f. case f of
                        QuotaExceededError \<Rightarrow> ''The quota has been exceeded.''
                      | OtherError \<Rightarrow> ''The operation is insecure.'') \<rparr>"


definition example_project :: "string \<Rightarrow> string \<Rightarrow> string \<Rightarrow> string \<Rightarrow> int option \<Rightarrow> project" where
  "example_project i n st c it = \<lparr>
     project_id = i, project_name = n, status = st, created_at = c,
     description = None, updated_at = None, current_iteration = it, test_results = None,
     has_final = None, stopped_by_user = None, stopped_at = None, imported = None,
     imported_files = None, analysis = None, modification_id = None,
     modification_mode = None \<rparr>"

definition storage_of :: "project list \<Rightarrow> storage" where
  "storage_of ps = \<lparr> projects = ps, isStorageAvailable = True, errors = [],
                     localStorage = [STORAGE_KEY \<mapsto> JProjects ps] \<rparr>"

definition page_of :: "project list \<Rightarrow> page" where
  "page_of ps = \<lparr> hook = storage_of ps, polling = {}, activeProjects = {}, errorState = None \<rparr>"

definition todo_app :: project where
  "todo_app = example_project ''a1b2c3d4-0001'' ''Todo app'' ''generating_code''
                ''2024-03-01T00:00:00.000Z'' (Some 3)"

definition old_shop :: project where
  "old_shop = example_project ''a1b2c3d4-0002'' ''Shop'' ''completed''
                ''2024-01-01T00:00:00.000Z'' (Some 1)"

definition blog :: project where
  "blog = example_project ''a1b2c3d4-0003'' ''Blog'' ''processing''
            ''2024-03-01T00:00:00.000Z'' None"

text \<open>The update \<open>handleStopGeneration\<close> passes on, at time \<open>now\<close>.\<close>

definition stop_update :: "string \<Rightarrow> project_update" where
  "stop_update now = no_update\<lparr>upd_status := Some ''failed'',
                               upd_stopped_by_user := Some (Some True),
                               upd_stopped_at := Some (Some now)\<rparr>"

text \<open>
  An import of fifty projects into a list that holds \<open>old_shop\<close>: \<open>importProjects\<close>
  appends them, so the older project comes first.
\<close>

definition bulk_project :: "nat \<Rightarrow> project" where
  "bulk_project n = example_project (''b0000000-'' @ replicate (Suc n) (CHR ''7''))
                      ''Imported'' ''imported'' ''2024-01-01T00:00:00.000Z'' None"

definition import_file :: "project list" where
  "import_file = todo_app # map bulk_project [0..<49]"





section \<open>The sort\<close>

lemmas example_defs = example_env_def example_clock_def example_project_def storage_of_def
  page_of_def todo_app_def old_shop_def blog_def

lemmas storage_defs = saveProjects_def saveProjects_catch_def setItem_def sort_newest_first_def
  array_sort_def compareFn_def updateProject_def getProject_def limited_def normal_save_def
  updated_list_def spread_def no_update_def MAX_PROJECTS_def MAX_STORAGE_SIZE_def
  STORAGE_KEY_def Let_def

lemma mset_insert_sorted: "mset (insert_sorted c x ys) = add_mset x (mset ys)"
  by (induction ys) auto

lemma mset_array_sort: "mset (array_sort c xs) = mset xs"
  by (induction xs) (auto simp: array_sort_def mset_insert_sorted)

lemma set_array_sort: "set (array_sort c xs) = set xs"
  using mset_array_sort[of c xs] by (metis set_mset_mset)

lemma length_array_sort: "length (array_sort c xs) = length xs"
  using mset_array_sort[of c xs] by (metis size_mset)


lemma set_sort_newest_first: "set (sort_newest_first e ps) = set ps"
  by (simp add: sort_newest_first_def set_array_sort)

lemma length_sort_newest_first: "length (sort_newest_first e ps) = length ps"
  by (simp add: sort_newest_first_def length_array_sort)

text \<open>When every date parses, the sort is the stable sort by descending time.\<close>

lemma insert_sorted_insort_key:
  assumes "\<And>a b. a \<in> insert x (set ys) \<Longrightarrow> b \<in> insert x (set ys) \<Longrightarrow> (c a b \<le> 0) = (f a \<le> f b)"
  shows "insert_sorted c x ys = insort_key f x ys"
  using assms by (induction ys) auto

lemma array_sort_sort_key:
  assumes "\<And>a b. a \<in> set xs \<Longrightarrow> b \<in> set xs \<Longrightarrow> (c a b \<le> 0) = (f a \<le> f b)"
  shows "array_sort c xs = sort_key f xs"
  using assms
proof (induction xs)
  case Nil
  show ?case by (simp add: array_sort_def)
next
  case (Cons x xs)
  have ih: "array_sort c xs = sort_key f xs" using Cons by simp
  have "insert_sorted c x (sort_key f xs) = insort_key f x (sort_key f xs)"
    by (rule insert_sorted_insort_key) (use Cons.prems in auto)
  with ih show ?case by (simp add: array_sort_def)
qed

lemma compareFn_valid:
  assumes "getTime e (created_at a) = Some ta" and "getTime e (created_at b) = Some tb"
  shows "compareFn e a b = tb - ta"
  using assms by (simp add: compareFn_def)

lemma newest_first_sort:
  assumes "\<forall>p\<in>set ps. getTime e (created_at p) \<noteq> None"
  shows "newest_first e (sort_newest_first e ps)"
proof -
  let ?f = "\<lambda>p. - the (getTime e (created_at p))"
  have eqv: "(compareFn e a b \<le> 0) = (?f a \<le> ?f b)" if "a \<in> set ps" "b \<in> set ps" for a b
  proof -
    from that assms obtain ta tb where
      t: "getTime e (created_at a) = Some ta" "getTime e (created_at b) = Some tb"
      by blast
    then have "compareFn e a b = tb - ta" by (rule compareFn_valid)
    with t show ?thesis by simp
  qed
  have srt: "sort_newest_first e ps = sort_key ?f ps"
    unfolding sort_newest_first_def by (rule array_sort_sort_key) (rule eqv)
  have sw: "sorted_wrt (\<lambda>a b. ?f a \<le> ?f b) (sort_key ?f ps)"
    using sorted_sort_key[of ?f ps] by (simp only: sorted_map)
  have "sorted_wrt (\<lambda>a b. compareFn e a b \<le> 0) (sort_key ?f ps)"
  proof (rule sorted_wrt_mono_rel[OF _ sw])
    fix a b
    assume "a \<in> set (sort_key ?f ps)" "b \<in> set (sort_key ?f ps)" "?f a \<le> ?f b"
    then show "compareFn e a b \<le> 0" using eqv[of a b] by simp
  qed
  with srt show ?thesis by (simp only: newest_first_def)
qed

lemma newest_first_take: "newest_first e ps \<Longrightarrow> newest_first e (take n ps)"
  by (simp add: newest_first_def sorted_wrt_take)


lemma limited_short:
  "length ps \<le> 100 \<Longrightarrow> limited e ps = sort_newest_first e ps"
  by (simp add: limited_def length_sort_newest_first MAX_PROJECTS_def Let_def)

lemma length_limited: "length (limited e ps) \<le> 200"
  by (auto simp: limited_def Let_def MAX_PROJECTS_def)

section \<open>What \<open>saveProjects\<close> leaves behind\<close>

lemma saved_normal: "normal_save e s ps \<Longrightarrow> saved e s ps = Some (limited e ps)"
  by (simp add: normal_save_def saved_def)



lemma saveProjects_saved:
  "fst (saveProjects e ps s) = (saved e s ps \<noteq> None) \<and>
   projects (snd (saveProjects e ps s)) = (case saved e s ps of None \<Rightarrow> projects s | Some l \<Rightarrow> l) \<and>
   localStorage (snd (saveProjects e ps s)) =
     (case saved e s ps of None \<Rightarrow> localStorage s
      | Some l \<Rightarrow> (localStorage s)(STORAGE_KEY \<mapsto> JProjects l)) \<and>
   isStorageAvailable (snd (saveProjects e ps s)) = isStorageAvailable s"
proof (cases "jsonLength e (take MAX_PROJECTS (sort_newest_first e ps)) > MAX_STORAGE_SIZE div 2")
  case True
  then show ?thesis
    by (auto simp: saveProjects_def saveProjects_catch_def saved_def limited_def setItem_def Let_def
        split: option.splits fault.splits)
next
  case False
  then show ?thesis
    by (auto simp: saveProjects_def saveProjects_catch_def saved_def limited_def setItem_def Let_def
        split: option.splits fault.splits)
qed

lemma persisted_saveProjects:
  "persisted (snd (saveProjects e ps s)) =
     (case saved e s ps of None \<Rightarrow> persisted s | Some l \<Rightarrow> Some l)"
  using saveProjects_saved[of e ps s] by (simp add: persisted_def split: option.splits)

section \<open>Active projects\<close>

text \<open>
  C8. After \<open>trackActiveProject(p)\<close> has returned \<open>true\<close>, \<open>getActiveProjects()\<close> should
  list \<open>p\<close>. On an empty, available storage the call returns \<open>true\<close> and stores the id
  under \<open>ACTIVE_PROJECTS_KEY\<close>, but \<open>getActiveProjects\<close> reads the item
  \<open>'active_projects'\<close> and returns the empty list.
\<close>

theorem tracked_project_not_listed:
  "fst (trackActiveProject example_env ''a1b2c3d4-0001'' (storage_of [])) = True \<and>
   localStorage (snd (trackActiveProject example_env ''a1b2c3d4-0001'' (storage_of [])))
     ACTIVE_PROJECTS_KEY = Some (JIds [''a1b2c3d4-0001'']) \<and>
   getActiveProjects (snd (trackActiveProject example_env ''a1b2c3d4-0001'' (storage_of []))) = []"
  by (simp add: trackActiveProject_def getActiveProjects_def storage_of_def example_env_def
      setItem_def ACTIVE_PROJECTS_KEY_def STORAGE_KEY_def)

section \<open>Updating a stored project\<close>

lemma updateProject_eq:
  "updateProject e now pid u s = snd (saveProjects e (updated_list (projects s) pid u now) s)"
  by (simp add: updateProject_def updated_list_def)

lemma updateProject_projects:
  "projects (updateProject e now pid u s) =
     (case saved e s (updated_list (projects s) pid u now) of
        None \<Rightarrow> projects s | Some l \<Rightarrow> l)"
  using saveProjects_saved[of e "updated_list (projects s) pid u now" s]
  by (simp add: updateProject_eq)

lemma updateProject_persisted:
  "persisted (updateProject e now pid u s) =
     (case saved e s (updated_list (projects s) pid u now) of
        None \<Rightarrow> persisted s | Some l \<Rightarrow> Some l)"
  by (simp add: updateProject_eq persisted_saveProjects)

lemma updated_list_member:
  assumes "q \<in> set (updated_list ps pid u now)" and "project_id q = pid"
  shows "\<exists>p\<in>set ps. project_id p = pid \<and> q = spread p u now"
  using assms by (auto simp: updated_list_def split: if_splits)

lemma updated_list_has:
  assumes "p \<in> set ps" and "project_id p = pid"
  shows "spread p u now \<in> set (updated_list ps pid u now)"
  using assms by (auto simp: updated_list_def)

lemma getProject_Some:
  "getProject s pid = Some p \<Longrightarrow> p \<in> set (projects s) \<and> project_id p = pid"
  by (auto simp: getProject_def find_Some_iff)



lemma project_id_spread:
  "upd_project_id u = None \<or> upd_project_id u = Some (project_id p) \<Longrightarrow>
   project_id (spread p u now) = project_id p"
  by (auto simp: spread_def)

text \<open>
  A project of the id that was in the list is found after a save on the normal path when
  the list has at most a hundred projects: no limit cuts the list then.
\<close>

lemma found_after_normal_save:
  assumes "normal_save e s (updated_list (projects s) pid u now)"
    and "length (projects s) \<le> 100"
    and "getProject s pid = Some p"
    and "upd_project_id u = None \<or> upd_project_id u = Some pid"
  shows "\<exists>q x. getProject (updateProject e now pid u s) pid = Some q \<and>
           x \<in> set (projects s) \<and> project_id x = pid \<and> q = spread x u now"
proof -
  let ?L = "updated_list (projects s) pid u now"
  have len: "length ?L \<le> 100" using assms(2) by (simp add: updated_list_def)
  have pr: "projects (updateProject e now pid u s) = sort_newest_first e ?L"
    using assms(1) by (simp add: updateProject_projects saved_normal limited_short[OF len])
  from assms(3) have p: "p \<in> set (projects s)" "project_id p = pid"
    using getProject_Some by blast+
  have "spread p u now \<in> set ?L" using p by (rule updated_list_has)
  moreover have "project_id (spread p u now) = pid"
    using assms(4) p(2) project_id_spread[of u p now] by auto
  ultimately have "\<exists>y\<in>set (sort_newest_first e ?L). project_id y = pid"
    by (auto simp: set_sort_newest_first)
  then have "find (\<lambda>y. project_id y = pid) (sort_newest_first e ?L) \<noteq> None"
    by (auto simp: find_None_iff)
  then obtain q where q: "find (\<lambda>y. project_id y = pid) (sort_newest_first e ?L) = Some q"
    by blast
  then have "q \<in> set (sort_newest_first e ?L)" "project_id q = pid"
    by (auto simp: find_Some_iff)
  then have "q \<in> set ?L" "project_id q = pid" by (simp_all add: set_sort_newest_first)
  then obtain x where "x \<in> set (projects s)" "project_id x = pid" "q = spread x u now"
    using updated_list_member by blast
  with q pr show ?thesis by (auto simp: getProject_def)
qed







section \<open>Stopping a generation\<close>

lemma storageEffect_frame:
  "hook (storageEffect b pg) = hook pg"
  "polling (storageEffect b pg) = polling pg"
  "activeProjects (storageEffect b pg) = activeProjects pg"
  by (simp_all add: storageEffect_def)

lemma handleStopGeneration_hook:
  "hook (handleStopGeneration e now pid (Resolved x) pg) =
     updateProjectSafely e now pid (stop_update now) (hook pg)"
  by (simp add: handleStopGeneration_def stop_update_def storageEffect_frame)

lemma spread_stop_update:
  "spread y ((stop_update now)\<lparr>upd_project_name := Some n\<rparr>) now =
     y\<lparr>status := ''failed'', stopped_by_user := Some True, stopped_at := Some now,
       updated_at := Some now, project_name := n\<rparr>"
  by (simp add: spread_def stop_update_def no_update_def)

text \<open>
  C1 as stated: a successful stop request leaves the project in a status of its own,
  Stopped, not Failed. The project \<open>todo_app\<close> is generating code; after
  \<open>handleStopGeneration\<close>, with the request resolved, its status is \<open>'failed'\<close>.
\<close>

theorem stopped_project_is_failed:
  "isGenerating todo_app \<and>
   map_option status (getProject (hook (handleStopGeneration example_env
       ''2024-03-02T00:00:00.000Z'' ''a1b2c3d4-0001'' (Resolved ())
       (page_of [todo_app, old_shop]))) ''a1b2c3d4-0001'') = Some ''failed''"
  by (simp add: example_defs storage_defs updateProjectSafely_def handleStopGeneration_def
      storageEffect_def isGenerating_def)

text \<open>
  C1 as amended. After a stop request that the server accepted, for a project \<open>p\<close> found
  under the id, the list handed to \<open>saveProjects\<close> is the list the handler holds in which
  every project of the id has status \<open>'failed'\<close>, \<open>stopped_by_user\<close> set, \<open>stopped_at\<close> and
  \<open>updated_at\<close> at the time of the request and the name of \<open>p\<close>, and is otherwise as it
  was, \<open>current_iteration\<close> and \<open>test_results\<close> included. The list and the stored item
  become what \<open>saveProjects\<close> stores of it, and stay as they were when the save fails. On
  the normal path, for a list of at most a hundred projects, the stopped project is found
  afterwards, in the list and in the stored item. The id has left the \<open>polling\<close> and
  \<open>activeProjects\<close> sets.
\<close>

theorem handleStopGeneration_outcome:
  assumes "getProject (hook pg) pid = Some p"
  shows "let L = updated_list (projects (hook pg)) pid
                   ((stop_update now)\<lparr>upd_project_name := Some (project_name p)\<rparr>) now;
             pg' = handleStopGeneration e now pid (Resolved x) pg
         in L = map (\<lambda>y. if project_id y = pid
                          then y\<lparr>status := ''failed'', stopped_by_user := Some True,
                                 stopped_at := Some now, updated_at := Some now,
                                 project_name := project_name p\<rparr>
                          else y) (projects (hook pg)) \<and>
            projects (hook pg') =
              (case saved e (hook pg) L of None \<Rightarrow> projects (hook pg) | Some l \<Rightarrow> l) \<and>
            persisted (hook pg') =
              (case saved e (hook pg) L of None \<Rightarrow> persisted (hook pg) | Some l \<Rightarrow> Some l) \<and>
            (normal_save e (hook pg) L \<and> length (projects (hook pg)) \<le> 100 \<longrightarrow>
               persisted (hook pg') = Some (projects (hook pg')) \<and>
               (\<exists>q y. getProject (hook pg') pid = Some q \<and>
                      y \<in> set (projects (hook pg)) \<and> project_id y = pid \<and>
                      q = y\<lparr>status := ''failed'', stopped_by_user := Some True,
                             stopped_at := Some now, updated_at := Some now,
                             project_name := project_name p\<rparr>)) \<and>
            polling pg' = polling pg - {pid} \<and>
            activeProjects pg' = activeProjects pg - {pid}"
proof -
  let ?u = "(stop_update now)\<lparr>upd_project_name := Some (project_name p)\<rparr>"
  let ?L = "updated_list (projects (hook pg)) pid ?u now"
  let ?pg' = "handleStopGeneration e now pid (Resolved x) pg"
  have h: "hook ?pg' = updateProject e now pid ?u (hook pg)"
    using assms by (simp add: handleStopGeneration_hook updateProjectSafely_def)
  have a: "?L = map (\<lambda>y. if project_id y = pid
                          then y\<lparr>status := ''failed'', stopped_by_user := Some True,
                                 stopped_at := Some now, updated_at := Some now,
                                 project_name := project_name p\<rparr>
                          else y) (projects (hook pg))"
    by (simp add: updated_list_def spread_stop_update)
  have b: "projects (hook ?pg') =
              (case saved e (hook pg) ?L of None \<Rightarrow> projects (hook pg) | Some l \<Rightarrow> l)"
    unfolding h by (rule updateProject_projects)
  have c: "persisted (hook ?pg') =
              (case saved e (hook pg) ?L of None \<Rightarrow> persisted (hook pg) | Some l \<Rightarrow> Some l)"
    unfolding h by (rule updateProject_persisted)
  have d: "persisted (hook ?pg') = Some (projects (hook ?pg')) \<and>
               (\<exists>q y. getProject (hook ?pg') pid = Some q \<and>
                      y \<in> set (projects (hook pg)) \<and> project_id y = pid \<and>
                      q = y\<lparr>status := ''failed'', stopped_by_user := Some True,
                             stopped_at := Some now, updated_at := Some now,
                             project_name := project_name p\<rparr>)"
    if n: "normal_save e (hook pg) ?L" and len: "length (projects (hook pg)) \<le> 100"
  proof -
    have i: "upd_project_id ?u = None \<or> upd_project_id ?u = Some pid"
      by (simp add: stop_update_def no_update_def)
    from found_after_normal_save[OF n len assms i]
    obtain q y where "getProject (hook ?pg') pid = Some q" "y \<in> set (projects (hook pg))"
      "project_id y = pid" "q = spread y ?u now"
      unfolding h by blast
    then have ex: "\<exists>q y. getProject (hook ?pg') pid = Some q \<and>
                      y \<in> set (projects (hook pg)) \<and> project_id y = pid \<and>
                      q = y\<lparr>status := ''failed'', stopped_by_user := Some True,
                             stopped_at := Some now, updated_at := Some now,
                             project_name := project_name p\<rparr>"
      by (auto simp: spread_stop_update)
    have "persisted (hook ?pg') = Some (projects (hook ?pg'))"
      unfolding b c using n by (simp add: saved_normal)
    with ex show ?thesis by blast
  qed
  have s: "polling ?pg' = polling pg - {pid} \<and> activeProjects ?pg' = activeProjects pg - {pid}"
    by (simp add: handleStopGeneration_def storageEffect_frame)
  from a b c d s show ?thesis unfolding Let_def by blast
qed

theorem handleStopGeneration_outcome_witness:
  "getProject (hook (page_of [todo_app, old_shop])) ''a1b2c3d4-0001'' = Some todo_app \<and>
   normal_save example_env (hook (page_of [todo_app, old_shop]))
     (updated_list (projects (hook (page_of [todo_app, old_shop]))) ''a1b2c3d4-0001''
        ((stop_update ''2024-03-02T00:00:00.000Z'')\<lparr>upd_project_name := Some (project_name todo_app)\<rparr>)
        ''2024-03-02T00:00:00.000Z'') \<and>
   length (projects (hook (page_of [todo_app, old_shop]))) \<le> 100 \<and>
   projects (hook (handleStopGeneration example_env ''2024-03-02T00:00:00.000Z''
      ''a1b2c3d4-0001'' (Resolved ()) (page_of [todo_app, old_shop]))) =
     [todo_app\<lparr>status := ''failed'', stopped_by_user := Some True,
               stopped_at := Some ''2024-03-02T00:00:00.000Z'',
               updated_at := Some ''2024-03-02T00:00:00.000Z''\<rparr>, old_shop] \<and>
   getProject (hook (handleStopGeneration example_env ''2024-03-02T00:00:00.000Z''
      ''a1b2c3d4-0001'' (Resolved ()) (page_of [todo_app, old_shop]))) ''a1b2c3d4-0001'' =
     Some (todo_app\<lparr>status := ''failed'', stopped_by_user := Some True,
               stopped_at := Some ''2024-03-02T00:00:00.000Z'',
               updated_at := Some ''2024-03-02T00:00:00.000Z''\<rparr>)"
  using handleStopGeneration_outcome[of "page_of [todo_app, old_shop]" "''a1b2c3d4-0001''"
      todo_app "''2024-03-02T00:00:00.000Z''" example_env "()"]
  by (simp add: example_defs storage_defs updateProjectSafely_def handleStopGeneration_def
      storageEffect_def stop_update_def)

text \<open>
  C2 as stated: a stop is offered and carried out only in the states GeneratingCode,
  GeneratingTests and RunningTests. The project \<open>blog\<close> has status \<open>'processing'\<close>; the
  stop button is rendered for it, and the handler carries the stop out.
\<close>

theorem processing_project_can_be_stopped:
  "status blog = ''processing'' \<and> isGenerating blog \<and> stop_button_rendered blog True \<and>
   map_option status (getProject (hook (handleStopGeneration example_env
       ''2024-03-02T00:00:00.000Z'' ''a1b2c3d4-0003'' (Resolved ())
       (page_of [blog, old_shop]))) ''a1b2c3d4-0003'') = Some ''failed''"
  by (simp add: example_defs storage_defs updateProjectSafely_def handleStopGeneration_def
      storageEffect_def isGenerating_def stop_button_rendered_def)

text \<open>
  C2 as amended. The view shows its stop controls exactly when the status is
  \<open>'processing'\<close>, \<open>'generating_code'\<close>, \<open>'generating_tests'\<close> or \<open>'running_tests'\<close>, and
  the stop button is rendered when moreover the server allows the stop. The handler tests
  no status: when the server accepts the request it applies the stop update, and when the
  server rejects it the list and the polling sets stay as they were and the error is
  shown.
\<close>

theorem stop_offered_while_generating:
  "(isGenerating p \<longleftrightarrow>
      status p = ''processing'' \<or> status p = ''generating_code'' \<or>
      status p = ''generating_tests'' \<or> status p = ''running_tests'') \<and>
   (stop_button_rendered p canStop \<longleftrightarrow>
      (status p = ''processing'' \<or> status p = ''generating_code'' \<or>
       status p = ''generating_tests'' \<or> status p = ''running_tests'') \<and> canStop) \<and>
   hook (handleStopGeneration e now pid (Resolved x) pg) =
     updateProjectSafely e now pid (stop_update now) (hook pg) \<and>
   hook (handleStopGeneration e now pid (Rejected name message) pg) = hook pg \<and>
   polling (handleStopGeneration e now pid (Rejected name message) pg) = polling pg \<and>
   activeProjects (handleStopGeneration e now pid (Rejected name message) pg) = activeProjects pg \<and>
   errorState (handleStopGeneration e now pid (Rejected name message) pg) =
     Some (if message = [] then ''Errore durante l'interruzione'' else message, ''Stop Generation'')"
proof -
  have a: "stop_button_rendered p canStop \<longleftrightarrow>
      (status p = ''processing'' \<or> status p = ''generating_code'' \<or>
       status p = ''generating_tests'' \<or> status p = ''running_tests'') \<and> canStop"
    by (simp add: stop_button_rendered_def isGenerating_def)
  have g: "isGenerating p \<longleftrightarrow>
      status p = ''processing'' \<or> status p = ''generating_code'' \<or>
      status p = ''generating_tests'' \<or> status p = ''running_tests''"
    by (simp add: isGenerating_def)
  have b: "hook (handleStopGeneration e now pid (Resolved x) pg) =
     updateProjectSafely e now pid (stop_update now) (hook pg)"
    by (rule handleStopGeneration_hook)
  have c: "hook (handleStopGeneration e now pid (Rejected name message) pg) = hook pg \<and>
   polling (handleStopGeneration e now pid (Rejected name message) pg) = polling pg \<and>
   activeProjects (handleStopGeneration e now pid (Rejected name message) pg) = activeProjects pg \<and>
   errorState (handleStopGeneration e now pid (Rejected name message) pg) =
     Some (if message = [] then ''Errore durante l'interruzione'' else message, ''Stop Generation'')"
    by (simp add: handleStopGeneration_def)
  from g a b c show ?thesis by blast
qed

section \<open>The status monitor\<close>

text \<open>
  C4 as stated: the polling step halts exactly when the status is Completed, Failed, Error
  or Stopped. With the status \<open>'stopped'\<close> both closures end in
  \<open>setTimeout(poll, 5000)\<close>.
\<close>

theorem stopped_status_keeps_polling:
  "fst (poll example_env ''2024-03-02T00:00:00.000Z'' ''a1b2c3d4-0001''
         (Resolved (no_update\<lparr>upd_status := Some ''stopped''\<rparr>)) (page_of [todo_app])) = True \<and>
   fst (pollWithNamePreservation example_env ''2024-03-02T00:00:00.000Z'' ''a1b2c3d4-0001'' None
         (Resolved (no_update\<lparr>upd_status := Some ''stopped''\<rparr>)) (page_of [todo_app])) = True"
  by (simp add: poll_def pollWithNamePreservation_def terminal_status_def no_update_def Let_def)

text \<open>
  C4 as amended. A run of either polling closure schedules the next run exactly when the
  request succeeded and the reported status is none of \<open>'completed'\<close>, \<open>'failed'\<close> and
  \<open>'error'\<close>; a failed request ends the loop.
\<close>

theorem poll_halts_on_terminal_status:
  "fst (poll e now pid (Resolved st) pg) =
     (upd_status st \<noteq> Some ''completed'' \<and> upd_status st \<noteq> Some ''failed'' \<and>
      upd_status st \<noteq> Some ''error'') \<and>
   fst (poll e now pid (Rejected name message) pg) = False \<and>
   fst (pollWithNamePreservation e now pid customName (Resolved st) pg) =
     (upd_status st \<noteq> Some ''completed'' \<and> upd_status st \<noteq> Some ''failed'' \<and>
      upd_status st \<noteq> Some ''error'') \<and>
   fst (pollWithNamePreservation e now pid customName (Rejected name message) pg) = False"
  by (simp add: poll_def pollWithNamePreservation_def terminal_status_def Let_def)

text \<open>A start for an id that is in the \<open>polling\<close> set changes nothing and starts no loop.\<close>

lemma pollProjectStatus_noop:
  "projectId \<in> polling pg \<Longrightarrow> pollProjectStatus projectId pg = (False, pg)"
  by (simp add: pollProjectStatus_def)

text \<open>\<open>trackActiveProject\<close> never stores an id twice.\<close>

lemma trackActiveProject_distinct:
  assumes "\<And>ids. localStorage s ACTIVE_PROJECTS_KEY = Some (JIds ids) \<Longrightarrow> distinct ids"
    and "localStorage (snd (trackActiveProject e projectId s)) ACTIVE_PROJECTS_KEY = Some (JIds ids')"
  shows "distinct ids'"
  using assms
  by (auto simp: trackActiveProject_def setItem_def
      split: if_splits option.splits stored.splits sum.splits)

lemma pollProjectStatus_started:
  "fst (pollProjectStatus projectId pg) = (projectId \<notin> polling pg)"
  "polling (snd (pollProjectStatus projectId pg)) = insert projectId (polling pg)"
  by (auto simp: pollProjectStatus_def)

lemma polling_handleStopGeneration:
  "polling (handleStopGeneration e now pid (Resolved x) pg) = polling pg - {pid}"
  by (simp add: handleStopGeneration_def storageEffect_frame)

lemma handleRegenerateProject_started:
  "fst (handleRegenerateProject e now pid (Resolved x) pg) = (pid \<notin> polling pg)"
  by (simp add: handleRegenerateProject_def Let_def pollProjectStatus_started
      storageEffect_frame dismissError_def)

text \<open>
  C3. At most one polling loop per project should exist at any instant. A loop is started
  for \<open>todo_app\<close>; the user stops the generation, which takes the id out of \<open>polling\<close> but
  leaves the closure \<open>poll\<close> waiting for its timer; the user regenerates, and
  \<open>pollProjectStatus\<close> starts a second loop for the same id.
\<close>

theorem second_loop_after_stop:
  "loops (run example_env ''2024-03-02T00:00:00.000Z''
            \<lparr> the_page = page_of [todo_app], loops = [] \<rparr>
            [StartPolling ''a1b2c3d4-0001'',
             StopGeneration ''a1b2c3d4-0001'' (Resolved ()),
             Regenerate ''a1b2c3d4-0001'' (Resolved ())])
     = [''a1b2c3d4-0001'', ''a1b2c3d4-0001'']"
proof -
  let ?p = "''a1b2c3d4-0001''"
  let ?a0 = "\<lparr> the_page = page_of [todo_app], loops = [] \<rparr>"
  let ?a1 = "step example_env ''2024-03-02T00:00:00.000Z'' ?a0 (StartPolling ?p)"
  let ?a2 = "step example_env ''2024-03-02T00:00:00.000Z'' ?a1 (StopGeneration ?p (Resolved ()))"
  let ?a3 = "step example_env ''2024-03-02T00:00:00.000Z'' ?a2 (Regenerate ?p (Resolved ()))"
  have a1: "loops ?a1 = [?p]" "polling (the_page ?a1) = {?p}"
    by (simp_all add: started_def pollProjectStatus_started page_of_def)
  have a2: "loops ?a2 = [?p]" "polling (the_page ?a2) = {}"
    using a1 by (simp_all add: polling_handleStopGeneration)
  have "loops ?a3 = [?p, ?p]"
    using a2 by (simp add: started_def handleRegenerateProject_started)
  then show ?thesis by (simp add: run_def)
qed

section \<open>The iteration counter\<close>




section \<open>Cleanup\<close>


lemma example_fault:
  "setItemFault example_env k (JProjects ps) =
     (if 50 < length ps then Some QuotaExceededError else None)"
  by (simp add: example_env_def)

lemma saved_emergency:
  assumes "isStorageAvailable s"
    and "setItemFault e STORAGE_KEY (JProjects (limited e ps)) = Some QuotaExceededError"
    and "setItemFault e STORAGE_KEY (JProjects (take 50 ps)) = None"
  shows "saved e s ps = Some (take 50 ps)"
  using assms by (simp add: saved_def)





section \<open>The saved list\<close>

lemma saveProjects_emergency:
  assumes "isStorageAvailable s"
    and "setItemFault e STORAGE_KEY (JProjects (limited e ps)) = Some QuotaExceededError"
    and "setItemFault e STORAGE_KEY (JProjects (take 50 ps)) = None"
  shows "fst (saveProjects e ps s) = True \<and>
         projects (snd (saveProjects e ps s)) = take 50 ps \<and>
         persisted (snd (saveProjects e ps s)) = Some (take 50 ps)"
  using saved_emergency[OF assms] saveProjects_saved[of e ps s] persisted_saveProjects[of e ps s]
  by simp

text \<open>
  On the normal path, when every date parses, the saved list is newest first, has at most
  200 projects, and at most 100 when its serialisation is longer than four megabytes.
\<close>

lemma saveProjects_normal_invariant:
  assumes "normal_save e s ps" and "\<forall>p\<in>set ps. getTime e (created_at p) \<noteq> None"
  shows "fst (saveProjects e ps s) = True \<and>
         persisted (snd (saveProjects e ps s)) = Some (limited e ps) \<and>
         projects (snd (saveProjects e ps s)) = limited e ps \<and>
         newest_first e (limited e ps) \<and>
         length (limited e ps) \<le> 200 \<and>
         (jsonLength e (limited e ps) > 4194304 \<longrightarrow> length (limited e ps) \<le> 100)"
proof -
  have sv: "saved e s ps = Some (limited e ps)" using assms(1) by (rule saved_normal)
  have a: "fst (saveProjects e ps s) = True \<and>
         persisted (snd (saveProjects e ps s)) = Some (limited e ps) \<and>
         projects (snd (saveProjects e ps s)) = limited e ps"
    using sv saveProjects_saved[of e ps s] persisted_saveProjects[of e ps s] by simp
  have srt: "newest_first e (sort_newest_first e ps)"
    using assms(2) by (rule newest_first_sort)
  have b: "newest_first e (limited e ps)"
    using srt by (simp add: limited_def Let_def newest_first_take)
  have d: "jsonLength e (limited e ps) > 4194304 \<longrightarrow> length (limited e ps) \<le> 100"
    by (simp add: limited_def Let_def MAX_PROJECTS_def MAX_STORAGE_SIZE_def)
  from a b length_limited d show ?thesis by blast
qed

lemma length_import: "length (old_shop # import_file) = 51"
  by (simp add: import_file_def)

text \<open>
  C9. After every call of \<open>saveProjects\<close> that returns \<open>true\<close> the stored list should be
  newest first. The list holds \<open>old_shop\<close>, and a file of fifty newer projects is
  imported; the storage takes fifty projects but not fifty-one. \<open>setItem\<close> throws
  \<open>QuotaExceededError\<close>, the \<open>catch\<close> branch stores the first fifty projects of its unsorted
  argument, and \<open>saveProjects\<close> returns \<open>true\<close>: the older \<open>old_shop\<close> is stored in front of
  the newer \<open>todo_app\<close>.
\<close>

theorem emergency_save_not_newest_first:
  "importProjects example_env import_file (storage_of [old_shop]) =
     saveProjects example_env (old_shop # import_file) (storage_of [old_shop]) \<and>
   fst (saveProjects example_env (old_shop # import_file) (storage_of [old_shop])) = True \<and>
   persisted (snd (saveProjects example_env (old_shop # import_file) (storage_of [old_shop]))) =
     Some (take 50 (old_shop # import_file)) \<and>
   take 2 (old_shop # import_file) = [old_shop, todo_app] \<and>
   getTime example_env (created_at old_shop) = Some 1704067200000 \<and>
   getTime example_env (created_at todo_app) = Some 1709251200000 \<and>
   \<not> newest_first example_env (take 50 (old_shop # import_file))"
proof -
  have lim: "length (limited example_env (old_shop # import_file)) = 51"
    by (simp add: limited_short length_sort_newest_first import_file_def)
  have f1: "setItemFault example_env STORAGE_KEY (JProjects (limited example_env (old_shop # import_file)))
            = Some QuotaExceededError"
    by (simp add: example_fault lim)
  have f2: "setItemFault example_env STORAGE_KEY (JProjects (take 50 (old_shop # import_file))) = None"
    by (simp add: example_fault import_file_def)
  have av: "isStorageAvailable (storage_of [old_shop])" by (simp add: storage_of_def)
  note sv = saveProjects_emergency[OF av f1 f2]
  have imp: "importProjects example_env import_file (storage_of [old_shop]) =
     saveProjects example_env (old_shop # import_file) (storage_of [old_shop])"
    by (simp add: importProjects_def storage_of_def import_file_def Let_def old_shop_def
        todo_app_def bulk_project_def example_project_def filter_map comp_def)
  have ns: "\<not> newest_first example_env (take 50 (old_shop # import_file))"
    by (simp add: newest_first_def import_file_def old_shop_def todo_app_def
        example_project_def example_env_def example_clock_def compareFn_def)
  have t2: "take 2 (old_shop # import_file) = [old_shop, todo_app]"
    by (simp add: import_file_def)
  have lt: "getTime example_env (created_at old_shop) = Some 1704067200000 \<and>
            getTime example_env (created_at todo_app) = Some 1709251200000"
    by (simp add: old_shop_def todo_app_def example_project_def example_env_def example_clock_def)
  from sv imp ns t2 lt show ?thesis by (simp add: persisted_def)
qed

section \<open>Merging the history\<close>

lemma foldl_map_add:
  "foldl (\<lambda>files i. files ++ codeFiles i) m hs = m ++ foldl (\<lambda>files i. files ++ codeFiles i) Map.empty hs"
proof (induction hs arbitrary: m)
  case Nil
  show ?case by simp
next
  case (Cons h hs)
  have "foldl (\<lambda>files i. files ++ codeFiles i) (m ++ codeFiles h) hs =
        (m ++ codeFiles h) ++ foldl (\<lambda>files i. files ++ codeFiles i) Map.empty hs"
    by (rule Cons.IH)
  moreover have "foldl (\<lambda>files i. files ++ codeFiles i) (Map.empty ++ codeFiles h) hs =
        (Map.empty ++ codeFiles h) ++ foldl (\<lambda>files i. files ++ codeFiles i) Map.empty hs"
    by (rule Cons.IH)
  ultimately show ?case by simp
qed

lemma merge_onto_merge: "merge_onto m h = m ++ merge h"
  unfolding merge_onto_def merge_def by (rule foldl_map_add)

lemma map_add_twice: "(m ++ n) ++ n = m ++ (n :: 'a \<rightharpoonup> 'b)"
  by (rule ext) (simp add: map_add_def split: option.splits)

lemma successful_path_success:
  "\<exists>i\<in>set h. iter_success i \<Longrightarrow> successful_path (h @ k) = successful_path h"
  by (induction h) auto

lemma successful_path_no_success:
  "\<forall>i\<in>set h. \<not> iter_success i \<Longrightarrow> successful_path h = h"
  by (induction h) auto

lemma map_add_same: "n ++ n = (n :: 'a \<rightharpoonup> 'b)"
  by (rule ext) (simp add: map_add_def split: option.splits)

lemma merge_replay: "merge (h @ h) = merge h"
proof (cases "\<exists>i\<in>set h. iter_success i")
  case True
  then show ?thesis
    by (simp add: merge_def merge_onto_def successful_path_success)
next
  case False
  then have a: "successful_path h = h" "successful_path (h @ h) = h @ h"
    by (simp_all add: successful_path_no_success)
  have "merge (h @ h) = merge_onto (merge h) h"
    using a by (simp add: merge_def merge_onto_def)
  also have "\<dots> = merge h ++ merge h" by (rule merge_onto_merge)
  finally show ?thesis by (simp add: map_add_same)
qed

text \<open>
  C6. Merge is idempotent: merging a history over the artifact that a merge of the same
  history has produced changes nothing, and merging the history replayed after itself
  gives the artifact of the history.
\<close>

text \<open>
  C6. Merge is idempotent: merging a history over the artifact that a merge of the same
  history has produced changes nothing, and merging the history replayed after itself
  gives the artifact of the history.
\<close>

theorem merge_idempotent:
  "merge_onto (merge_onto artifact history) history = merge_onto artifact history \<and>
   merge_onto (merge history) history = merge history \<and>
   merge (history @ history) = merge history"
proof -
  have "merge_onto (merge_onto artifact history) history = (artifact ++ merge history) ++ merge history"
    by (simp add: merge_onto_merge)
  also have "\<dots> = artifact ++ merge history" by (rule map_add_twice)
  finally have a: "merge_onto (merge_onto artifact history) history = merge_onto artifact history"
    by (simp add: merge_onto_merge)
  have b: "merge_onto (merge history) history = merge history"
    by (simp add: merge_onto_merge map_add_same)
  from a b merge_replay show ?thesis by blast
qed

end
